theory Spec2Isabelle
  imports Complex_Main "HOL-Library.Sublist" "HOL-Library.Multiset"
begin

section \<open>Data model\<close>

text \<open>
  The module \<^verbatim>\<open>streamlit_app.py\<close> keeps a reference set of graded calls
  (\<^verbatim>\<open>GABARITO_EMBEDDINGS\<close>), a list of dictionaries with the keys
  \<^verbatim>\<open>'embedding'\<close>, \<^verbatim>\<open>'id'\<close> and \<^verbatim>\<open>'metadata'\<close>; the metadata dictionary has the
  keys \<^verbatim>\<open>'pontuacao_esperada'\<close> and \<^verbatim>\<open>'checklist'\<close>. A dictionary with a fixed set
  of keys is a record here; the checklist, whose keys are data and whose insertion
  order decides the order of the rendered lines, is an association list.

  Python floats are modelled as \<^typ>\<open>real\<close>: finite floats are a subset of the reals with
  the same order, and scikit-learn rejects NaN and infinite inputs before it computes.
  The value that scikit-learn computes for a pair of vectors is a parameter \<open>cs\<close> of the
  model, so every statement below about ranking holds for whatever value the
  floating-point computation returns. The product of two floats, which rounds its
  result, is a parameter \<open>fmul\<close> of the calibration block for the same reason. Python
  strings are modelled as \<^typ>\<open>string\<close>, a non-ASCII character being its UTF-8 bytes.
\<close>

datatype exn =
    FileNotFoundError string
  | ValueError string
  | OtherException string

fun str_exn :: "exn \<Rightarrow> string" where
  "str_exn (FileNotFoundError m) = m"
| "str_exn (ValueError m) = m"
| "str_exn (OtherException m) = m"

datatype ident = StrId string | IntId int

record case_metadata =
  pontuacao_esperada :: int
  checklist :: "(string \<times> bool) list"

record reference_case =
  embedding :: "real list"
  item_id :: ident
  item_metadata :: case_metadata

record similar_case =
  similarity_score :: real
  case_id :: ident
  metadata :: case_metadata

section \<open>The numeric library\<close>

text \<open>
  \<^verbatim>\<open>np.array\<close> on a list of rows: rows of unequal length have no common shape and
  NumPy raises \<^verbatim>\<open>ValueError\<close> (inhomogeneous shape).
\<close>

definition np_array :: "real list list \<Rightarrow> exn + real list list" where
  "np_array rows =
     (if list_all (\<lambda>r. length r = length (hd rows)) rows then Inr rows
      else Inl (ValueError ''inhomogeneous shape''))"

text \<open>
  \<^verbatim>\<open>sklearn.metrics.pairwise.cosine_similarity(X, Y)\<close> with \<open>X\<close> the query reshaped to
  one row: it validates its arguments first and raises \<^verbatim>\<open>ValueError\<close> when the arrays
  have no feature or when the number of columns of \<open>Y\<close> differs from the one of \<open>X\<close>;
  otherwise row \<open>0\<close> of its result holds one value per row of \<open>Y\<close>. The value computed
  for a pair of vectors is the parameter \<open>cs\<close>.
\<close>

definition cosine_similarity ::
  "(real list \<Rightarrow> real list \<Rightarrow> real) \<Rightarrow> real list \<Rightarrow> real list list \<Rightarrow> exn + real list" where
  "cosine_similarity cs query_vector gabarito_embeddings =
     (if length query_vector = 0 then Inl (ValueError ''0 feature(s)'')
      else if list_all (\<lambda>r. length r = length query_vector) gabarito_embeddings
      then Inr (map (cs query_vector) gabarito_embeddings)
      else Inl (ValueError ''Incompatible dimension for X and Y matrices''))"

text \<open>
  The value of the cosine in exact arithmetic, the way scikit-learn computes it: each
  vector is divided by its Euclidean norm, a zero norm being replaced by \<open>1\<close>, and the
  two normalised vectors are multiplied.
\<close>

definition l2_norm :: "real list \<Rightarrow> real" where
  "l2_norm v = sqrt (sum_list (map (\<lambda>x. x * x) v))"

definition normalize :: "real list \<Rightarrow> real list" where
  "normalize v = map (\<lambda>x. x / (if l2_norm v = 0 then 1 else l2_norm v)) v"

definition dot :: "real list \<Rightarrow> real list \<Rightarrow> real" where
  "dot u v = sum_list (map2 (*) u v)"

definition cosine_exact :: "real list \<Rightarrow> real list \<Rightarrow> real" where
  "cosine_exact u v = dot (normalize u) (normalize v)"

text \<open>
  \<^verbatim>\<open>np.argsort\<close> returns the indices that sort its argument in ascending order. Its
  default algorithm does not promise an order among equal values, so the function is a
  parameter \<open>argsort\<close> of the model, and \<open>is_argsort\<close> is its contract: the result is a
  permutation of the indices and reads the values in ascending order.
\<close>

definition is_argsort :: "real list \<Rightarrow> nat list \<Rightarrow> bool" where
  "is_argsort xs idxs = (sort idxs = [0..<length xs] \<and> sorted (map ((!) xs) idxs))"

text \<open>
  One function that meets the contract, used to evaluate examples: the stable insertion
  sort of the library on the index list, which keeps equal values in index order.
  \<^verbatim>\<open>np.argsort\<close> itself may leave equal values in another order; what is proved of the
  code below is proved for every \<open>argsort\<close> that meets \<open>is_argsort\<close>.
\<close>

definition argsort_stable :: "real list \<Rightarrow> nat list" where
  "argsort_stable xs = sort_key ((!) xs) [0..<length xs]"

text \<open>
  Another function that meets the contract: it leaves equal values in descending index
  order.
\<close>

definition argsort_ties_descending :: "real list \<Rightarrow> nat list" where
  "argsort_ties_descending xs = rev (sort_key (\<lambda>i. - (xs ! i)) [0..<length xs])"

text \<open>
  The slice \<^verbatim>\<open>a[start:]\<close> of Python: a negative start counts from the end, and a start
  outside the list is clipped.
\<close>

definition slice_from :: "int \<Rightarrow> 'a list \<Rightarrow> 'a list" where
  "slice_from start xs =
     (let n = int (length xs);
          s = (if start < 0 then max (n + start) 0 else min start n)
      in drop (nat s) xs)"

section \<open>The similarity ranker\<close>

text \<open>
  \<^verbatim>\<open>find_similar_cases(query_embedding, embeddings_data, top_k=3)\<close>. The store is
  \<open>None\<close> or a list; \<open>top_k\<close> is a Python integer. \<open>top_indices\<close> is the expression
  \<^verbatim>\<open>np.argsort(similarities)[-top_k:][::-1]\<close>, and \<open>similar_case_of\<close> the dictionary that
  the loop appends for one index. The indices that \<open>argsort\<close> returns are in range by
  its contract.
\<close>

definition top_indices :: "(real list \<Rightarrow> nat list) \<Rightarrow> real list \<Rightarrow> int \<Rightarrow> nat list" where
  "top_indices argsort similarities top_k = rev (slice_from (- top_k) (argsort similarities))"

definition similar_case_of :: "reference_case list \<Rightarrow> real list \<Rightarrow> nat \<Rightarrow> similar_case" where
  "similar_case_of embeddings_data similarities idx =
     \<lparr>similarity_score = similarities ! idx,
      case_id = item_id (embeddings_data ! idx),
      metadata = item_metadata (embeddings_data ! idx)\<rparr>"

definition find_similar_cases ::
  "(real list \<Rightarrow> real list \<Rightarrow> real) \<Rightarrow> (real list \<Rightarrow> nat list) \<Rightarrow>
   real list \<Rightarrow> reference_case list option \<Rightarrow> int \<Rightarrow> exn + similar_case list" where
  "find_similar_cases cs argsort query_embedding embeddings_data top_k =
     (case embeddings_data of
        None \<Rightarrow> Inr []
      | Some items \<Rightarrow>
          if length items = 0 then Inr []
          else
            (case np_array (map embedding items) of
               Inl e \<Rightarrow> Inl e
             | Inr gabarito_embeddings \<Rightarrow>
                 (case cosine_similarity cs query_embedding gabarito_embeddings of
                    Inl e \<Rightarrow> Inl e
                  | Inr similarities \<Rightarrow>
                      Inr (map (similar_case_of items similarities)
                             (top_indices argsort similarities top_k)))))"

text \<open>The similarity values of a store, one per entry, as line 39 leaves them.\<close>

definition store_similarities ::
  "(real list \<Rightarrow> real list \<Rightarrow> real) \<Rightarrow> real list \<Rightarrow> reference_case list \<Rightarrow> real list" where
  "store_similarities cs query_embedding items = map (\<lambda>c. cs query_embedding (embedding c)) items"

section \<open>Text rendering\<close>

text \<open>The non-ASCII characters of the source's string literals, as UTF-8 bytes.\<close>

abbreviation E_circ :: string where
  "E_circ \<equiv> [CHR 0xC3, CHR 0x8A]"

abbreviation c_ced :: string where
  "c_ced \<equiv> [CHR 0xC3, CHR 0xA7]"

abbreviation a_til :: string where
  "a_til \<equiv> [CHR 0xC3, CHR 0xA3]"

abbreviation e_acu :: string where
  "e_acu \<equiv> [CHR 0xC3, CHR 0xA9]"

abbreviation C_ced :: string where
  "C_ced \<equiv> [CHR 0xC3, CHR 0x87]"

abbreviation O_til :: string where
  "O_til \<equiv> [CHR 0xC3, CHR 0x95]"

abbreviation I_acu :: string where
  "I_acu \<equiv> [CHR 0xC3, CHR 0x8D]"

abbreviation A_til :: string where
  "A_til \<equiv> [CHR 0xC3, CHR 0x83]"

abbreviation e_circ :: string where
  "e_circ \<equiv> [CHR 0xC3, CHR 0xAA]"

abbreviation u_acu :: string where
  "u_acu \<equiv> [CHR 0xC3, CHR 0xBA]"

abbreviation i_acu :: string where
  "i_acu \<equiv> [CHR 0xC3, CHR 0xAD]"

abbreviation bullet :: string where
  "bullet \<equiv> [CHR 0xE2, CHR 0x80, CHR 0xA2]"

abbreviation check_mark :: string where
  "check_mark \<equiv> [CHR 0xE2, CHR 0x9C, CHR 0x93]"

abbreviation ballot_x :: string where
  "ballot_x \<equiv> [CHR 0xE2, CHR 0x9C, CHR 0x97]"

abbreviation warning_sign :: string where
  "warning_sign \<equiv> [CHR 0xE2, CHR 0x9A, CHR 0xA0, CHR 0xEF, CHR 0xB8, CHR 0x8F]"



text \<open>\<^verbatim>\<open>str\<close> of a Python integer: decimal digits, a minus sign when negative.\<close>

fun show_nat :: "nat \<Rightarrow> string" where
  "show_nat n =
     (if n < 10 then [''0123456789'' ! n]
      else show_nat (n div 10) @ [''0123456789'' ! (n mod 10)])"

declare show_nat.simps [simp del]

definition show_int :: "int \<Rightarrow> string" where
  "show_int i = (if i < 0 then ''-'' @ show_nat (nat (- i)) else show_nat (nat i))"

fun str_ident :: "ident \<Rightarrow> string" where
  "str_ident (StrId s) = s"
| "str_ident (IntId i) = show_int i"

text \<open>
  The format specification \<^verbatim>\<open>:.1f\<close>: the value rounded to one digit after the point,
  a tie going to the even digit, with a minus sign for a negative value.
\<close>

definition round_half_even :: "real \<Rightarrow> int" where
  "round_half_even x =
     (let f = \<lfloor>x\<rfloor>; d = x - of_int f
      in if d < 1 / 2 then f
         else if 1 / 2 < d then f + 1
         else if even f then f else f + 1)"

definition format_1f :: "real \<Rightarrow> string" where
  "format_1f x =
     (let n = round_half_even (\<bar>x\<bar> * 10)
      in (if x < 0 then ''-'' else []) @ show_nat (nat (n div 10)) @ ''.'' @ show_nat (nat (n mod 10)))"

section \<open>The calibration block\<close>

text \<open>
  Lines 65 to 108 of \<^verbatim>\<open>get_gabarito_guidance\<close>: the text built from the list of similar
  cases. \<open>checklist_mapping\<close> is the dictionary literal of lines 71 to 84, and
  \<open>nome_legivel\<close> the lookup \<^verbatim>\<open>checklist_mapping.get(criterio, criterio)\<close>. Line 87
  multiplies the score by 100 in floating point: \<open>fmul\<close> is that product, and the format
  \<^verbatim>\<open>:.1f\<close> then rounds the exact value of the float it is given. \<open>header_text\<close>,
  \<open>score_text\<close> and \<open>checklist_text\<close> are the lines of a case without their line feed.
\<close>

definition checklist_mapping :: "(string \<times> string) list" where
  "checklist_mapping =
     [(''1_atendimento_saudacao'', ''1. Atendimento e sauda'' @ c_ced @ a_til @ ''o (10 pts)''),
      (''2_dados_cadastro'', ''2. Coleta de dados cadastrais (6 pts)''),
      (''3_script_lgpd'', ''3. Script LGPD (2 pts)''),
      (''4_tecnica_eco'', ''4. T'' @ e_acu @ ''cnica do Eco (5 pts)''),
      (''5_escuta_atenta'', ''5. Escuta atenta (3 pts)''),
      (''6_compreensao'', ''6. Compreens'' @ a_til @ ''o da solicita'' @ c_ced @ a_til @ ''o (5 pts)''),
      (''7_confirmacao_dano'', ''7. Confirma'' @ c_ced @ a_til @ ''o do dano (10 pts)''),
      (''8_cidade_loja'', ''8. Cidade e loja (10 pts)''),
      (''9_comunicacao_eficaz'', ''9. Comunica'' @ c_ced @ a_til @ ''o eficaz (5 pts)''),
      (''10_conduta_acolhedora'', ''10. Conduta acolhedora (4 pts)''),
      (''11_script_encerramento'', ''11. Script de encerramento (15 pts)''),
      (''12_pesquisa_satisfacao'', ''12. Pesquisa de satisfa'' @ c_ced @ a_til @ ''o (6 pts)'')]"

definition nome_legivel :: "string \<Rightarrow> string" where
  "nome_legivel criterio =
     (case map_of checklist_mapping criterio of Some nome \<Rightarrow> nome | None \<Rightarrow> criterio)"

definition guidance_header :: string where
  "guidance_header =
     ''\<newline>\<newline>=== REFER'' @ E_circ @ ''NCIA DO GABARITO VALIDADO ===\<newline>''
     @ ''Casos similares identificados (use como calibra'' @ c_ced @ a_til @ ''o de rigor):\<newline>\<newline>''"

definition guidance_trailer :: string where
  "guidance_trailer =
     ''INSTRU'' @ C_ced @ O_til @ ''ES CR'' @ I_acu @ ''TICAS DE CALIBRA'' @ C_ced @ A_til @ ''O:\<newline>''
     @ ''1. Use estes casos como PADR'' @ A_til @ ''O DE RIGOR - mantenha o mesmo n'' @ i_acu @ ''vel de exig'' @ e_circ @ ''ncia\<newline>''
     @ ''2. Avalie a transcri'' @ c_ced @ a_til @ ''o atual de forma INDEPENDENTE mas CONSISTENTE com o gabarito\<newline>''
     @ ''3. Se houver d'' @ u_acu @ ''vida entre SIM/N'' @ A_til @ ''O, compare com casos similares acima\<newline>''
     @ ''4. A pontua'' @ c_ced @ a_til @ ''o final deve refletir APENAS os crit'' @ e_acu @ ''rios que foram REALMENTE cumpridos\<newline>''
     @ ''5. Seja RIGOROSO como demonstrado nos casos validados\<newline>''
     @ ''=== FIM DA REFER'' @ E_circ @ ''NCIA DO GABARITO ===\<newline>''"

definition header_text :: "(real \<Rightarrow> real \<Rightarrow> real) \<Rightarrow> nat \<Rightarrow> similar_case \<Rightarrow> string" where
  "header_text fmul i c =
     (let similarity_pct = fmul (similarity_score c) 100
      in ''CASO SIMILAR #'' @ show_nat i @ '' - ID '' @ str_ident (case_id c)
         @ '' (Similaridade: '' @ format_1f similarity_pct @ ''%):'')"

definition case_header :: "(real \<Rightarrow> real \<Rightarrow> real) \<Rightarrow> nat \<Rightarrow> similar_case \<Rightarrow> string" where
  "case_header fmul i c = header_text fmul i c @ ''\<newline>''"

definition score_text :: "similar_case \<Rightarrow> string" where
  "score_text c =
     ''Pontua'' @ c_ced @ a_til @ ''o correta: '' @ show_int (pontuacao_esperada (metadata c))
     @ ''/81 pontos''"

definition score_line :: "similar_case \<Rightarrow> string" where
  "score_line c = score_text c @ ''\<newline>''"

definition checklist_text :: "string \<times> bool \<Rightarrow> string" where
  "checklist_text kv =
     ''  '' @ bullet @ '' '' @ nome_legivel (fst kv) @ '': ''
     @ (if snd kv then check_mark @ '' SIM'' else ballot_x @ '' N'' @ A_til @ ''O'')"

definition checklist_line :: "string \<times> bool \<Rightarrow> string" where
  "checklist_line kv = checklist_text kv @ ''\<newline>''"

definition case_block :: "(real \<Rightarrow> real \<Rightarrow> real) \<Rightarrow> nat \<Rightarrow> similar_case \<Rightarrow> string" where
  "case_block fmul i c =
     case_header fmul i c @ score_line c @ ''Respostas corretas validadas:\<newline>''
     @ concat (map checklist_line (checklist (metadata c))) @ ''\<newline>''"

definition format_guidance :: "(real \<Rightarrow> real \<Rightarrow> real) \<Rightarrow> similar_case list \<Rightarrow> string" where
  "format_guidance fmul similar_cases =
     (if similar_cases = [] then []
      else guidance_header
           @ concat (map2 (case_block fmul) [1..<Suc (length similar_cases)] similar_cases)
           @ guidance_trailer)"




definition no_line_feed :: "string \<Rightarrow> bool" where
  "no_line_feed s = (CHR 0x0A \<notin> set s)"




section \<open>Effects: the page and the embedding service\<close>

text \<open>
  \<^verbatim>\<open>st.success\<close>, \<^verbatim>\<open>st.warning\<close> and \<^verbatim>\<open>st.error\<close> write a message on the page; the world
  records them in order, and records every text sent to the embedding service. The
  service itself (\<^verbatim>\<open>client.embeddings.create\<close> followed by the read of
  \<^verbatim>\<open>response.data[0].embedding\<close>) is a parameter \<open>embedder\<close>: it returns a vector or
  raises.
\<close>

datatype ui_msg = Success string | Warning string | Error string

record world =
  ui :: "ui_msg list"
  embedding_requests :: "string list"


text \<open>
  \<^verbatim>\<open>get_gabarito_guidance(transcript_text)\<close>, with the global \<^verbatim>\<open>GABARITO_EMBEDDINGS\<close> as
  an argument. \<open>guidance_body\<close> is the body of the \<^verbatim>\<open>try\<close> block, where any step may
  raise; the \<^verbatim>\<open>except Exception\<close> clause turns every exception into a warning and the
  empty string.
\<close>

definition guidance_body ::
  "(string \<Rightarrow> exn + real list) \<Rightarrow> (real list \<Rightarrow> real list \<Rightarrow> real) \<Rightarrow> (real list \<Rightarrow> nat list) \<Rightarrow>
   (real \<Rightarrow> real \<Rightarrow> real) \<Rightarrow> reference_case list \<Rightarrow> string \<Rightarrow> exn + string" where
  "guidance_body embedder cs argsort fmul items transcript_text =
     (case embedder transcript_text of
        Inl e \<Rightarrow> Inl e
      | Inr current_embedding \<Rightarrow>
          (case find_similar_cases cs argsort current_embedding (Some items) 3 of
             Inl e \<Rightarrow> Inl e
           | Inr similar_cases \<Rightarrow> Inr (format_guidance fmul similar_cases)))"

definition get_gabarito_guidance ::
  "(string \<Rightarrow> exn + real list) \<Rightarrow> (real list \<Rightarrow> real list \<Rightarrow> real) \<Rightarrow> (real list \<Rightarrow> nat list) \<Rightarrow>
   (real \<Rightarrow> real \<Rightarrow> real) \<Rightarrow> reference_case list option \<Rightarrow> string \<Rightarrow> world \<Rightarrow> string \<times> world" where
  "get_gabarito_guidance embedder cs argsort fmul GABARITO_EMBEDDINGS transcript_text w =
     (case GABARITO_EMBEDDINGS of
        None \<Rightarrow> ([], w)
      | Some items \<Rightarrow>
          (let w1 = w\<lparr>embedding_requests := embedding_requests w @ [transcript_text]\<rparr>
           in case guidance_body embedder cs argsort fmul items transcript_text of
                Inr guidance \<Rightarrow> (guidance, w1)
              | Inl e \<Rightarrow>
                  ([], w1\<lparr>ui := ui w1 @ [Warning (warning_sign
                         @ '' Erro ao buscar casos similares: '' @ str_exn e)]\<rparr>)))"

section \<open>Example data\<close>

text \<open>
  The two-entry store of the end-to-end example, and a store whose two entries have the
  same embedding.
\<close>

definition case_A :: reference_case where
  "case_A = \<lparr>embedding = [1, 0], item_id = StrId ''A'',
             item_metadata = \<lparr>pontuacao_esperada = 75, checklist = []\<rparr>\<rparr>"

definition case_B :: reference_case where
  "case_B = \<lparr>embedding = [0, 1], item_id = StrId ''B'',
             item_metadata = \<lparr>pontuacao_esperada = 40, checklist = []\<rparr>\<rparr>"

definition case_B_twin :: reference_case where
  "case_B_twin = \<lparr>embedding = [1, 0], item_id = StrId ''B'',
             item_metadata = \<lparr>pontuacao_esperada = 40, checklist = []\<rparr>\<rparr>"


text \<open>
  The two similar cases that the ranker returns for the store of case A and its twin,
  and a similar case whose checklist has a key outside the fixed mapping.
\<close>

definition tie_matches :: "similar_case list" where
  "tie_matches =
     [\<lparr>similarity_score = 1, case_id = StrId ''B'',
       metadata = \<lparr>pontuacao_esperada = 40, checklist = []\<rparr>\<rparr>,
      \<lparr>similarity_score = 1, case_id = StrId ''A'',
       metadata = \<lparr>pontuacao_esperada = 75, checklist = []\<rparr>\<rparr>]"


section \<open>Properties of the ranker\<close>

lemma find_similar_cases_Inr:
  assumes "find_similar_cases cs argsort q (Some items) top_k = Inr ms"
  shows "ms = map (similar_case_of items (store_similarities cs q items))
                (top_indices argsort (store_similarities cs q items) top_k)
         \<or> (items = [] \<and> ms = [])"
  using assms
  by (auto simp: find_similar_cases_def np_array_def cosine_similarity_def
      store_similarities_def comp_def split: if_splits sum.splits)

lemma is_argsort_set:
  assumes "is_argsort xs idxs"
  shows "set idxs = {0..<length xs}"
proof -
  have "set idxs = set (sort idxs)" by simp
  also have "\<dots> = set [0..<length xs]" using assms by (simp add: is_argsort_def)
  finally show ?thesis by simp
qed

lemma is_argsort_distinct:
  assumes "is_argsort xs idxs"
  shows "distinct idxs"
proof -
  have "distinct (sort idxs)" using assms by (simp add: is_argsort_def)
  then show ?thesis by simp
qed

lemma is_argsort_length:
  assumes "is_argsort xs idxs"
  shows "length idxs = length xs"
proof -
  have "length idxs = length (sort idxs)" by simp
  also have "\<dots> = length xs" using assms by (simp add: is_argsort_def)
  finally show ?thesis .
qed

lemma slice_from_drop: "\<exists>m. slice_from s xs = drop m xs"
  by (auto simp: slice_from_def Let_def)

lemma top_indices_scores_descending:
  assumes "is_argsort xs (argsort xs)"
  shows "sorted_wrt (\<lambda>a b. b \<le> a) (map ((!) xs) (top_indices argsort xs k))"
proof -
  obtain m where m: "slice_from (- k) (argsort xs) = drop m (argsort xs)"
    using slice_from_drop by blast
  have "sorted (map ((!) xs) (drop m (argsort xs)))"
    using assms by (simp add: is_argsort_def drop_map [symmetric] sorted_wrt_drop)
  then show ?thesis
    by (simp add: top_indices_def m rev_map [symmetric] sorted_wrt_rev)
qed

lemma top_indices_hd_max:
  assumes ok: "is_argsort xs (argsort xs)"
    and ne: "top_indices argsort xs k \<noteq> []"
    and j: "j < length xs"
  shows "xs ! j \<le> xs ! hd (top_indices argsort xs k)"
proof -
  obtain m where m: "slice_from (- k) (argsort xs) = drop m (argsort xs)"
    using slice_from_drop by blast
  from ne have dne: "drop m (argsort xs) \<noteq> []"
    by (simp add: top_indices_def m)
  then have ane: "argsort xs \<noteq> []" by auto
  have "hd (top_indices argsort xs k) = last (drop m (argsort xs))"
    using dne by (simp add: top_indices_def m hd_rev)
  also have "\<dots> = last (argsort xs)"
    using dne by simp
  finally have h: "hd (top_indices argsort xs k) = last (argsort xs)" .
  have "j \<in> set (argsort xs)"
    using is_argsort_set [OF ok] j by simp
  then obtain p where p: "p < length (argsort xs)" "argsort xs ! p = j"
    by (auto simp: in_set_conv_nth)
  let ?ys = "map ((!) xs) (argsort xs)"
  have srt: "sorted ?ys" using ok by (simp add: is_argsort_def)
  have "?ys ! p \<le> ?ys ! (length ?ys - 1)"
    using p(1) by (intro sorted_nth_mono [OF srt]) auto
  moreover have "?ys ! (length ?ys - 1) = xs ! last (argsort xs)"
    using ane by (simp add: last_conv_nth)
  moreover have "?ys ! p = xs ! j" using p by simp
  ultimately show ?thesis using h by simp
qed

subsection \<open>Evaluation at concrete inputs\<close>

lemma ce_10_10: "cosine_exact [1,0] [1,0] = 1"
  by (simp add: cosine_exact_def dot_def normalize_def l2_norm_def)
lemma ce_10_01: "cosine_exact [1,0] [0,1] = 0"
  by (simp add: cosine_exact_def dot_def normalize_def l2_norm_def)

lemmas eval_defs = find_similar_cases_def np_array_def cosine_similarity_def top_indices_def
  slice_from_def similar_case_of_def argsort_stable_def case_A_def case_B_def case_B_twin_def
  store_similarities_def is_argsort_def tie_matches_def Let_def

subsection \<open>The stable argsort meets the contract\<close>

lemma argsort_stable_is_argsort: "is_argsort xs (argsort_stable xs)"
proof -
  have "mset (sort (argsort_stable xs)) = mset [0..<length xs]"
    by (simp add: argsort_stable_def)
  then have "sort (argsort_stable xs) = sort [0..<length xs]"
    by (metis mset_sort properties_for_sort sorted_sort)
  then have "sort (argsort_stable xs) = [0..<length xs]"
    by (simp add: sorted_sort_id)
  moreover have "sorted (map ((!) xs) (argsort_stable xs))"
    by (simp add: argsort_stable_def)
  ultimately show ?thesis by (simp add: is_argsort_def)
qed

subsection \<open>Claims about the ranker\<close>

text \<open>
  Claim C4. For every query vector and every \<open>top_k\<close>, an absent store (\<open>None\<close>) and a
  store with no entry both make \<open>find_similar_cases\<close> return the empty list, not an
  error.
\<close>

theorem find_similar_cases_empty_store:
  "find_similar_cases cs argsort query_embedding None top_k = Inr []
   \<and> find_similar_cases cs argsort query_embedding (Some []) top_k = Inr []"
  by (simp add: find_similar_cases_def)

text \<open>
  Claim C1. Whenever \<open>find_similar_cases\<close> returns a list for a store, the list is in
  descending order of \<open>similarity_score\<close> (each entry's score is at least the score of
  every later entry), and when it is not empty its first entry has a score at least as
  high as the similarity of every entry of the store. This holds for every \<open>top_k\<close>,
  every similarity function and every \<open>argsort\<close> that meets its contract on the
  similarities of the store.
\<close>

theorem find_similar_cases_descending:
  assumes "is_argsort (store_similarities cs q items) (argsort (store_similarities cs q items))"
    and "find_similar_cases cs argsort q (Some items) top_k = Inr ms"
  shows "sorted_wrt (\<lambda>a b. similarity_score b \<le> similarity_score a) ms
         \<and> (ms = [] \<or> list_all (\<lambda>c. cs q (embedding c) \<le> similarity_score (hd ms)) items)"
proof -
  let ?xs = "store_similarities cs q items"
  let ?ti = "top_indices argsort ?xs top_k"
  from find_similar_cases_Inr [OF assms(2)]
  consider (run) "ms = map (similar_case_of items ?xs) ?ti" | (empty) "ms = []" by blast
  then show ?thesis
  proof cases
    case empty
    then show ?thesis by simp
  next
    case run
    have sc: "map similarity_score ms = map ((!) ?xs) ?ti"
      by (simp add: run similar_case_of_def comp_def)
    have "sorted_wrt (\<lambda>a b. b \<le> a) (map similarity_score ms)"
      unfolding sc by (rule top_indices_scores_descending [of ?xs argsort, OF assms(1)])
    then have d: "sorted_wrt (\<lambda>a b. similarity_score b \<le> similarity_score a) ms"
      by (simp add: sorted_wrt_map)
    have m: "list_all (\<lambda>c. cs q (embedding c) \<le> similarity_score (hd ms)) items" if ne: "ms \<noteq> []"
    proof -
      from ne have tne: "?ti \<noteq> []" by (simp add: run)
      have hd: "similarity_score (hd ms) = ?xs ! hd ?ti"
        using tne by (simp add: run hd_map similar_case_of_def)
      have "cs q (embedding c) \<le> ?xs ! hd ?ti" if "c \<in> set items" for c
      proof -
        from that obtain j where j: "j < length items" "items ! j = c"
          by (auto simp: in_set_conv_nth)
        have "?xs ! j \<le> ?xs ! hd ?ti"
          by (rule top_indices_hd_max [of ?xs argsort, OF assms(1) tne]) (simp add: store_similarities_def j)
        then show ?thesis using j by (simp add: store_similarities_def)
      qed
      then show ?thesis by (simp add: hd list_all_iff)
    qed
    from d m show ?thesis by blast
  qed
qed

theorem find_similar_cases_descending_witness:
  "is_argsort (store_similarities cosine_exact [1, 0] [case_A, case_B])
     (argsort_stable (store_similarities cosine_exact [1, 0] [case_A, case_B]))
   \<and> find_similar_cases cosine_exact argsort_stable [1, 0] (Some [case_A, case_B]) 3
     = Inr [similar_case_of [case_A, case_B] [1, 0] 0, similar_case_of [case_A, case_B] [1, 0] 1]
   \<and> sorted_wrt (\<lambda>a b. similarity_score b \<le> similarity_score a)
       [similar_case_of [case_A, case_B] [1, 0] 0, similar_case_of [case_A, case_B] [1, 0] 1]"
proof -
  have a: "is_argsort (store_similarities cosine_exact [1, 0] [case_A, case_B])
     (argsort_stable (store_similarities cosine_exact [1, 0] [case_A, case_B]))"
    by (simp add: eval_defs ce_10_10 ce_10_01 upt_rec)
  have b: "find_similar_cases cosine_exact argsort_stable [1, 0] (Some [case_A, case_B]) 3
     = Inr [similar_case_of [case_A, case_B] [1, 0] 0, similar_case_of [case_A, case_B] [1, 0] 1]"
    by (simp add: eval_defs ce_10_10 ce_10_01 upt_rec)
  from find_similar_cases_descending [OF a b] a b show ?thesis by simp
qed

text \<open>
  Claim C2 as stated fails: the code has no tie-break of its own, and reversing the
  ascending order of \<open>argsort\<close> puts tied entries in the reverse of the order in which
  \<open>argsort\<close> left them. In a store whose entries 0 (id A) and 1 (id B) both have
  similarity 1 to the query, the entry with the higher store index comes first.
\<close>

theorem find_similar_cases_tie_counterexample:
  "item_id ([case_A, case_B_twin] ! 0) = StrId ''A''
   \<and> find_similar_cases cosine_exact argsort_stable [1, 0] (Some [case_A, case_B_twin]) 3
   = Inr [\<lparr>similarity_score = 1, case_id = StrId ''B'', metadata = \<lparr>pontuacao_esperada = 40, checklist = []\<rparr>\<rparr>,
          \<lparr>similarity_score = 1, case_id = StrId ''A'', metadata = \<lparr>pontuacao_esperada = 75, checklist = []\<rparr>\<rparr>]"
  by (simp add: eval_defs ce_10_10 upt_rec)

text \<open>
  Claim C2, amended. The ranker applies no tie-break of its own: the entry at position
  \<open>a\<close> of the result is the case whose index stands at position \<open>a\<close> from the end of
  the output of \<open>argsort\<close>. So the returned entries, tied ones included, appear in the
  reverse of the order in which \<open>argsort\<close> left their indices, and which of two tied
  entries comes first is decided by \<open>argsort\<close> alone.
\<close>

theorem find_similar_cases_ties_reversed:
  assumes "find_similar_cases cs argsort q (Some items) top_k = Inr ms"
    and "items \<noteq> []"
  shows "length ms \<le> length (argsort (store_similarities cs q items))
    \<and> (\<forall>a<length ms.
          ms ! a = similar_case_of items (store_similarities cs q items)
            (argsort (store_similarities cs q items)
              ! (length (argsort (store_similarities cs q items)) - Suc a)))"
proof -
  let ?xs = "store_similarities cs q items"
  let ?as = "argsort ?xs"
  obtain m where m: "slice_from (- top_k) ?as = drop m ?as"
    using slice_from_drop by blast
  have ms: "ms = map (similar_case_of items ?xs) (rev (drop m ?as))"
    using find_similar_cases_Inr [OF assms(1)] assms(2) by (simp add: top_indices_def m)
  have len: "length ms = length ?as - m" by (simp add: ms)
  have "ms ! a = similar_case_of items ?xs (?as ! (length ?as - Suc a))" if "a < length ms" for a
  proof -
    from that have a: "a < length ?as - m" by (simp add: len)
    then have "rev (drop m ?as) ! a = drop m ?as ! (length ?as - m - Suc a)"
      by (simp add: rev_nth)
    also have "\<dots> = ?as ! (m + (length ?as - m - Suc a))"
      using a by simp
    also have "m + (length ?as - m - Suc a) = length ?as - Suc a"
      using a by arith
    finally show ?thesis using a by (simp add: ms)
  qed
  then show ?thesis using len by simp
qed

theorem find_similar_cases_ties_reversed_witness:
  "find_similar_cases cosine_exact argsort_stable [1, 0] (Some [case_A, case_B_twin]) 3 = Inr tie_matches
   \<and> [case_A, case_B_twin] \<noteq> []
   \<and> argsort_stable (store_similarities cosine_exact [1, 0] [case_A, case_B_twin]) = [0, 1]
   \<and> length tie_matches \<le> length (argsort_stable (store_similarities cosine_exact [1, 0] [case_A, case_B_twin]))
   \<and> tie_matches ! 0 = similar_case_of [case_A, case_B_twin]
            (store_similarities cosine_exact [1, 0] [case_A, case_B_twin]) 1
   \<and> tie_matches ! 1 = similar_case_of [case_A, case_B_twin]
            (store_similarities cosine_exact [1, 0] [case_A, case_B_twin]) 0"
proof -
  have a: "find_similar_cases cosine_exact argsort_stable [1, 0] (Some [case_A, case_B_twin]) 3 = Inr tie_matches"
    by (simp add: eval_defs ce_10_10 upt_rec)
  have b: "[case_A, case_B_twin] \<noteq> []" by simp
  have c: "argsort_stable (store_similarities cosine_exact [1, 0] [case_A, case_B_twin]) = [0, 1]"
    by (simp add: eval_defs ce_10_10 upt_rec)
  have l: "length tie_matches = Suc (Suc 0)" by (simp add: tie_matches_def)
  note t = find_similar_cases_ties_reversed [OF a b, unfolded c l]
  from t have "tie_matches ! 0 = similar_case_of [case_A, case_B_twin]
            (store_similarities cosine_exact [1, 0] [case_A, case_B_twin]) ([0, 1] ! (length [0, 1 :: nat] - Suc 0))"
    by blast
  moreover from t have "tie_matches ! Suc 0 = similar_case_of [case_A, case_B_twin]
            (store_similarities cosine_exact [1, 0] [case_A, case_B_twin]) ([0, 1] ! (length [0, 1 :: nat] - Suc (Suc 0)))"
    by blast
  ultimately show ?thesis using a b c l by simp
qed

text \<open>
  Which tied entry comes first depends on \<open>argsort\<close>: with the function that leaves equal
  values in descending index order, which also meets the contract on this store, the
  same store and query give case A before case B.
\<close>

lemma find_similar_cases_tie_order_depends_on_argsort:
  "is_argsort (store_similarities cosine_exact [1, 0] [case_A, case_B_twin])
     (argsort_ties_descending (store_similarities cosine_exact [1, 0] [case_A, case_B_twin]))
   \<and> find_similar_cases cosine_exact argsort_ties_descending [1, 0] (Some [case_A, case_B_twin]) 3
       = Inr (rev tie_matches)"
  by (simp add: eval_defs argsort_ties_descending_def ce_10_10 upt_rec)

text \<open>
  Claim C3 at \<open>top_k = 0\<close>: the slice \<^verbatim>\<open>[-0:]\<close> is the whole array, so a store of two
  entries returns both entries where the claim asks for \<open>min 0 2 = 0\<close> entries.
\<close>

theorem find_similar_cases_top_k_zero:
  "find_similar_cases cosine_exact argsort_stable [1, 0] (Some [case_A, case_B]) 0
   = Inr [\<lparr>similarity_score = 1, case_id = StrId ''A'', metadata = \<lparr>pontuacao_esperada = 75, checklist = []\<rparr>\<rparr>,
          \<lparr>similarity_score = 0, case_id = StrId ''B'', metadata = \<lparr>pontuacao_esperada = 40, checklist = []\<rparr>\<rparr>]"
  by (simp add: eval_defs ce_10_10 ce_10_01 upt_rec)

text \<open>
  For \<open>top_k \<ge> 1\<close> the ranker returns \<open>min top_k N\<close> entries, and every returned entry
  is at least as similar as every entry that is not returned.
\<close>

lemma find_similar_cases_top_k:
  assumes ok: "is_argsort (store_similarities cs q items) (argsort (store_similarities cs q items))"
    and res: "find_similar_cases cs argsort q (Some items) top_k = Inr ms"
    and k: "1 \<le> top_k"
  shows "length ms = min (nat top_k) (length items)"
    and "\<lbrakk>i \<in> set (top_indices argsort (store_similarities cs q items) top_k);
          j < length items; j \<notin> set (top_indices argsort (store_similarities cs q items) top_k)\<rbrakk>
         \<Longrightarrow> store_similarities cs q items ! j \<le> store_similarities cs q items ! i"
proof -
  let ?xs = "store_similarities cs q items"
  let ?as = "argsort ?xs"
  let ?m = "length ?as - nat top_k"
  have len: "length ?as = length items"
    using is_argsort_length [OF ok] by (simp add: store_similarities_def)
  have ti: "top_indices argsort ?xs top_k = rev (drop ?m ?as)"
    using k by (auto simp: top_indices_def slice_from_def Let_def max_def nat_diff_distrib' intro!: arg_cong2 [where f = drop])
  from find_similar_cases_Inr [OF res]
  have "length ms = length (top_indices argsort ?xs top_k) \<or> (items = [] \<and> ms = [])"
    by auto
  then show "length ms = min (nat top_k) (length items)"
    using k by (auto simp: ti len)
  assume i: "i \<in> set (top_indices argsort ?xs top_k)" and j: "j < length items"
    and nj: "j \<notin> set (top_indices argsort ?xs top_k)"
  have "j \<in> set ?as" using is_argsort_set [OF ok] j by (simp add: store_similarities_def)
  then have "j \<in> set (take ?m ?as) \<union> set (drop ?m ?as)"
    by (simp only: set_append [symmetric] append_take_drop_id)
  with nj have jt: "j \<in> set (take ?m ?as)" by (simp add: ti)
  have "sorted (map ((!) ?xs) (take ?m ?as) @ map ((!) ?xs) (drop ?m ?as))"
    using ok by (simp add: is_argsort_def map_append [symmetric] del: map_append)
  then have "\<forall>x\<in>set (take ?m ?as). \<forall>y\<in>set (drop ?m ?as). ?xs ! x \<le> ?xs ! y"
    by (simp add: sorted_append)
  with jt i show "?xs ! j \<le> ?xs ! i" by (simp add: ti)
qed

text \<open>
  Claim C8. When the store is not empty and some entry's embedding has a number of
  elements different from the query's, \<open>find_similar_cases\<close> raises \<^verbatim>\<open>ValueError\<close>; it
  returns no neighbours.
\<close>

theorem find_similar_cases_dimension_mismatch:
  assumes "items \<noteq> []"
    and "\<not> list_all (\<lambda>c. length (embedding c) = length q) items"
  shows "\<exists>m. find_similar_cases cs argsort q (Some items) top_k = Inl (ValueError m)"
  using assms
  by (auto simp: find_similar_cases_def np_array_def cosine_similarity_def list_all_iff
      split: sum.splits if_splits)

theorem find_similar_cases_dimension_mismatch_witness:
  "[case_A, case_B] \<noteq> []
   \<and> \<not> list_all (\<lambda>c. length (embedding c) = length [1, 0, 0 :: real]) [case_A, case_B]
   \<and> find_similar_cases cosine_exact argsort_stable [1, 0, 0] (Some [case_A, case_B]) 3
     = Inl (ValueError ''Incompatible dimension for X and Y matrices'')"
proof -
  have a: "[case_A, case_B] \<noteq> []" by simp
  have b: "\<not> list_all (\<lambda>c. length (embedding c) = length [1, 0, 0 :: real]) [case_A, case_B]"
    by (simp add: case_A_def case_B_def)
  have c: "find_similar_cases cosine_exact argsort_stable [1, 0, 0] (Some [case_A, case_B]) 3
     = Inl (ValueError ''Incompatible dimension for X and Y matrices'')"
    by (simp add: eval_defs)
  from find_similar_cases_dimension_mismatch [OF a b, of cosine_exact argsort_stable 3] a b c
  show ?thesis by simp
qed

section \<open>Properties of the guidance and of the loader\<close>

text \<open>
  Claim C10. With an absent store \<open>get_gabarito_guidance\<close> returns the empty string and
  leaves the world as it was: no text is sent to the embedding service, and no message
  is written.
\<close>

theorem get_gabarito_guidance_absent_store:
  "get_gabarito_guidance embedder cs argsort fmul None transcript_text w = ([], w)"
  by (simp add: get_gabarito_guidance_def)

text \<open>
  Claim C5. When the store is loaded and the embedding service raises on the transcript,
  \<open>get_gabarito_guidance\<close> returns the empty string; the request is recorded, and one
  warning carrying the text of the exception is written. Nothing is raised.
\<close>

theorem get_gabarito_guidance_embedding_failure:
  assumes "embedder transcript_text = Inl e"
  shows "get_gabarito_guidance embedder cs argsort fmul (Some items) transcript_text w =
    ([], w\<lparr>embedding_requests := embedding_requests w @ [transcript_text],
           ui := ui w @ [Warning (warning_sign @ '' Erro ao buscar casos similares: '' @ str_exn e)]\<rparr>)"
  using assms by (simp add: get_gabarito_guidance_def guidance_body_def Let_def)

theorem get_gabarito_guidance_embedding_failure_witness:
  "get_gabarito_guidance (\<lambda>t. Inl (OtherException ''Connection error.'')) cosine_exact argsort_stable
     (*) (Some [case_A, case_B]) ''bom dia'' \<lparr>ui = [], embedding_requests = []\<rparr> =
    ([], \<lparr>ui = [Warning (warning_sign @ '' Erro ao buscar casos similares: Connection error.'')],
          embedding_requests = [''bom dia'']\<rparr>)"
  using get_gabarito_guidance_embedding_failure
    [of "\<lambda>t. Inl (OtherException ''Connection error.'')" "''bom dia''"
        "OtherException ''Connection error.''" cosine_exact argsort_stable "(*)" "[case_A, case_B]"
        "\<lparr>ui = [], embedding_requests = []\<rparr>"]
  by simp



section \<open>Properties of the calibration block\<close>



subsection \<open>The lines of the block\<close>

lemma no_line_feed_simps [simp]:
  "no_line_feed []"
  "no_line_feed (c # s) = (c \<noteq> CHR 0x0A \<and> no_line_feed s)"
  "no_line_feed (a @ b) = (no_line_feed a \<and> no_line_feed b)"
  by (auto simp: no_line_feed_def)























subsection \<open>The end-to-end example\<close>

lemma sqrt_82_bounds: "905538 / 100000 < sqrt 82" "sqrt 82 < 905539 / 100000"
proof -
  show "905538 / 100000 < sqrt 82"
    by (rule real_less_rsqrt) (simp add: power2_eq_square)
  show "sqrt 82 < 905539 / 100000"
    by (rule real_less_lsqrt) (simp_all add: power2_eq_square)
qed

lemma l2_norm_query: "l2_norm [9 / 10, 1 / 10] = sqrt 82 / 10"
proof -
  have "l2_norm [9 / 10, 1 / 10] = sqrt (82 / 100)"
    by (simp add: l2_norm_def)
  also have "\<dots> = sqrt 82 / sqrt 100" by (simp only: real_sqrt_divide)
  also have "sqrt 100 = (10::real)"
    using real_sqrt_abs [of 10] by simp
  finally show ?thesis .
qed

lemma cosine_exact_query_A: "cosine_exact [9 / 10, 1 / 10] [1, 0] = 9 / sqrt 82"
  using sqrt_82_bounds(1)
  by (simp add: cosine_exact_def dot_def normalize_def l2_norm_query) (simp add: l2_norm_def)

lemma cosine_exact_query_B: "cosine_exact [9 / 10, 1 / 10] [0, 1] = 1 / sqrt 82"
  using sqrt_82_bounds(1)
  by (simp add: cosine_exact_def dot_def normalize_def l2_norm_query) (simp add: l2_norm_def)

lemma cosine_A_bounds: "99388 / 100000 < 9 / sqrt 82" "9 / sqrt 82 < 99389 / 100000"
proof -
  have p: "0 < sqrt 82" by simp
  show "99388 / 100000 < 9 / sqrt 82"
    using sqrt_82_bounds(2) p by (simp add: pos_less_divide_eq)
  show "9 / sqrt 82 < 99389 / 100000"
    using sqrt_82_bounds(1) p by (simp add: pos_divide_less_eq)
qed

lemma cosine_B_bounds: "0 < 1 / sqrt 82" "1 / sqrt 82 < 1 / 2"
proof -
  have p: "0 < sqrt 82" by simp
  show "0 < 1 / sqrt 82" by simp
  show "1 / sqrt 82 < 1 / 2"
    using sqrt_82_bounds(1) p by (simp add: pos_divide_less_eq)
qed

lemma format_1f_994:
  assumes "99385 / 1000 \<le> x" "x \<le> 99395 / 1000"
  shows "format_1f x = ''99.4''"
proof -
  define y where "y = \<bar>x\<bar> * 10"
  have y: "99385 / 100 \<le> y" "y \<le> 99395 / 100"
    using assms unfolding y_def by linarith+
  have f: "\<lfloor>y\<rfloor> = 993"
    using y by (intro floor_unique) auto
  have "\<not> y - of_int \<lfloor>y\<rfloor> < 1 / 2" "1 / 2 < y - of_int \<lfloor>y\<rfloor>"
    using y unfolding f by auto
  then have "round_half_even y = 994"
    by (simp add: round_half_even_def Let_def f)
  moreover have "\<not> x < 0" using assms by linarith
  ultimately show ?thesis
    unfolding format_1f_def y_def [symmetric] by (simp add: show_nat.simps)
qed

lemma is_argsort_pair:
  assumes "is_argsort [a, b] idxs" "b < a"
  shows "idxs = [1, 0]"
proof -
  have "length idxs = Suc (Suc 0)"
    using is_argsort_length [OF assms(1)] by simp
  then obtain i j where ij: "idxs = [i, j]"
    by (auto simp: length_Suc_conv)
  have "sort [i, j] = [0, Suc 0]"
    using assms(1) unfolding ij is_argsort_def by (simp add: upt_rec)
  then have c: "(i = 0 \<and> j = Suc 0) \<or> (i = Suc 0 \<and> j = 0)"
    by (simp split: if_splits)
  have "[a, b] ! i \<le> [a, b] ! j"
    using assms(1) unfolding ij is_argsort_def by simp
  with c assms(2) have "i = Suc 0 \<and> j = 0" by auto
  then show ?thesis by (simp add: ij)
qed

text \<open>
  Claim C9. For the store of case A (embedding \<open>[1, 0]\<close>, expected score 75) and case B
  (embedding \<open>[0, 1]\<close>, expected score 40), the query \<open>[0.9, 0.1]\<close> and \<open>top_k = 1\<close>, the
  ranker returns exactly one match, case A, whose similarity rounds to 0.994, and the
  calibration block of that result contains \<open>ID A\<close>, \<open>99.4%\<close> and \<open>75/81\<close>. This holds for
  every similarity function within \<open>10\<^sup>-\<^sup>6\<close> of the exact cosine on the two pairs
  of vectors, every float product within \<open>10\<^sup>-\<^sup>6\<close> of the exact product of the
  similarity by 100, and every \<open>argsort\<close> that meets its contract.
\<close>

theorem end_to_end_example:
  assumes a: "\<bar>cs [9 / 10, 1 / 10] [1, 0] - cosine_exact [9 / 10, 1 / 10] [1, 0]\<bar> \<le> 1 / 10 ^ 6"
    and b: "\<bar>cs [9 / 10, 1 / 10] [0, 1] - cosine_exact [9 / 10, 1 / 10] [0, 1]\<bar> \<le> 1 / 10 ^ 6"
    and p: "\<bar>fmul (cs [9 / 10, 1 / 10] [1, 0]) 100 - cs [9 / 10, 1 / 10] [1, 0] * 100\<bar> \<le> 1 / 10 ^ 6"
    and ok: "is_argsort (store_similarities cs [9 / 10, 1 / 10] [case_A, case_B])
               (argsort (store_similarities cs [9 / 10, 1 / 10] [case_A, case_B]))"
  shows "\<exists>m. find_similar_cases cs argsort [9 / 10, 1 / 10] (Some [case_A, case_B]) 1 = Inr [m]
           \<and> case_id m = StrId ''A''
           \<and> \<bar>similarity_score m - 994 / 1000\<bar> < 5 / 10000
           \<and> sublist ''ID A'' (format_guidance fmul [m])
           \<and> sublist ''99.4%'' (format_guidance fmul [m])
           \<and> sublist ''75/81'' (format_guidance fmul [m])"
proof -
  define sa where "sa = cs [9 / 10, 1 / 10] [1, 0]"
  define sb where "sb = cs [9 / 10, 1 / 10] [0, 1]"
  have sims: "store_similarities cs [9 / 10, 1 / 10] [case_A, case_B] = [sa, sb]"
    by (simp add: store_similarities_def case_A_def case_B_def sa_def sb_def)
  have tol: "(1::real) / 10 ^ 6 = 1 / 1000000" by simp
  have "\<bar>sa - 9 / sqrt 82\<bar> \<le> 1 / 1000000"
    using a unfolding sa_def cosine_exact_query_A tol .
  with cosine_A_bounds have sa: "99387 / 100000 < sa" "sa < 99390 / 100000"
    by linarith+
  have "\<bar>sb - 1 / sqrt 82\<bar> \<le> 1 / 1000000"
    using b unfolding sb_def cosine_exact_query_B tol .
  with cosine_B_bounds have sb: "sb < 6 / 10"
    by linarith
  have "sb < sa" using sa sb by linarith
  moreover have "is_argsort [sa, sb] (argsort [sa, sb])"
    using ok unfolding sims .
  ultimately have "argsort [sa, sb] = [1, 0]"
    using is_argsort_pair [of sa sb "argsort [sa, sb]"] by blast
  then have ti: "top_indices argsort [sa, sb] 1 = [0]"
    by (simp add: top_indices_def slice_from_def)
  define m where "m = \<lparr>similarity_score = sa, case_id = StrId ''A'',
    metadata = \<lparr>pontuacao_esperada = 75, checklist = []\<rparr>\<rparr>"
  have res: "find_similar_cases cs argsort [9 / 10, 1 / 10] (Some [case_A, case_B]) 1 = Inr [m]"
    using ti
    by (simp add: find_similar_cases_def np_array_def cosine_similarity_def similar_case_of_def
        case_A_def case_B_def sa_def [symmetric] sb_def [symmetric] m_def)
  have "\<bar>fmul sa 100 - sa * 100\<bar> \<le> 1 / 1000000"
    using p unfolding sa_def tol .
  with sa have "99385 / 1000 \<le> fmul sa 100" "fmul sa 100 \<le> 99395 / 1000"
    by linarith+
  then have pct: "format_1f (fmul sa 100) = ''99.4''"
    by (rule format_1f_994)
  have out: "format_guidance fmul [m] = guidance_header
      @ ''CASO SIMILAR #1 - ID A (Similaridade: 99.4%):\<newline>''
      @ ''Pontua'' @ c_ced @ a_til @ ''o correta: 75/81 pontos\<newline>''
      @ ''Respostas corretas validadas:\<newline>'' @ ''\<newline>'' @ guidance_trailer"
    by (simp add: format_guidance_def case_block_def case_header_def header_text_def
        score_line_def score_text_def m_def pct show_int_def show_nat.simps)
  have s1: "sublist ''ID A'' (format_guidance fmul [m])"
    unfolding out sublist_def
    by (intro exI [of _ "guidance_header @ ''CASO SIMILAR #1 - ''"]
              exI [of _ "'' (Similaridade: 99.4%):\<newline>''
                @ ''Pontua'' @ c_ced @ a_til @ ''o correta: 75/81 pontos\<newline>''
                @ ''Respostas corretas validadas:\<newline>'' @ ''\<newline>'' @ guidance_trailer"]) simp
  have s2: "sublist ''99.4%'' (format_guidance fmul [m])"
    unfolding out sublist_def
    by (intro exI [of _ "guidance_header @ ''CASO SIMILAR #1 - ID A (Similaridade: ''"]
              exI [of _ "''):\<newline>''
                @ ''Pontua'' @ c_ced @ a_til @ ''o correta: 75/81 pontos\<newline>''
                @ ''Respostas corretas validadas:\<newline>'' @ ''\<newline>'' @ guidance_trailer"]) simp
  have s3: "sublist ''75/81'' (format_guidance fmul [m])"
    unfolding out sublist_def
    by (intro exI [of _ "guidance_header @ ''CASO SIMILAR #1 - ID A (Similaridade: 99.4%):\<newline>''
                @ ''Pontua'' @ c_ced @ a_til @ ''o correta: ''"]
              exI [of _ "'' pontos\<newline>''
                @ ''Respostas corretas validadas:\<newline>'' @ ''\<newline>'' @ guidance_trailer"]) simp
  have ap: "\<bar>similarity_score m - 994 / 1000\<bar> < 5 / 10000"
    using sa by (simp add: m_def abs_less_iff)
  have "case_id m = StrId ''A''" by (simp add: m_def)
  with res ap s1 s2 s3 show ?thesis by blast
qed

theorem end_to_end_example_witness:
  "\<bar>cosine_exact [9 / 10, 1 / 10] [1, 0] - cosine_exact [9 / 10, 1 / 10] [1, 0]\<bar> \<le> 1 / 10 ^ 6
   \<and> \<bar>cosine_exact [9 / 10, 1 / 10] [0, 1] - cosine_exact [9 / 10, 1 / 10] [0, 1]\<bar> \<le> 1 / 10 ^ 6
   \<and> \<bar>cosine_exact [9 / 10, 1 / 10] [1, 0] * 100 - cosine_exact [9 / 10, 1 / 10] [1, 0] * 100\<bar> \<le> 1 / 10 ^ 6
   \<and> is_argsort (store_similarities cosine_exact [9 / 10, 1 / 10] [case_A, case_B])
         (argsort_stable (store_similarities cosine_exact [9 / 10, 1 / 10] [case_A, case_B]))
   \<and> (\<exists>m. find_similar_cases cosine_exact argsort_stable [9 / 10, 1 / 10] (Some [case_A, case_B]) 1 = Inr [m]
           \<and> case_id m = StrId ''A''
           \<and> \<bar>similarity_score m - 994 / 1000\<bar> < 5 / 10000
           \<and> sublist ''ID A'' (format_guidance (*) [m])
           \<and> sublist ''99.4%'' (format_guidance (*) [m])
           \<and> sublist ''75/81'' (format_guidance (*) [m]))"
proof -
  have a: "\<bar>cosine_exact [9 / 10, 1 / 10] [1, 0] - cosine_exact [9 / 10, 1 / 10] [1, 0]\<bar> \<le> 1 / 10 ^ 6"
    by simp
  have b: "\<bar>cosine_exact [9 / 10, 1 / 10] [0, 1] - cosine_exact [9 / 10, 1 / 10] [0, 1]\<bar> \<le> 1 / 10 ^ 6"
    by simp
  have p: "\<bar>cosine_exact [9 / 10, 1 / 10] [1, 0] * 100 - cosine_exact [9 / 10, 1 / 10] [1, 0] * 100\<bar> \<le> 1 / 10 ^ 6"
    by simp
  have c: "is_argsort (store_similarities cosine_exact [9 / 10, 1 / 10] [case_A, case_B])
         (argsort_stable (store_similarities cosine_exact [9 / 10, 1 / 10] [case_A, case_B]))"
    by (rule argsort_stable_is_argsort)
  from end_to_end_example [of cosine_exact "(*)" argsort_stable, OF a b p c] a b p c
  show ?thesis by blast
qed

end
